theory Spec2Isabelle
  imports Complex_Main
begin

section \<open>The trend-model training script\<close>

text \<open>
  \<^verbatim>\<open>training/train_trend_model.py\<close> is a straight-line script: it patches two names of
  the numpy module, imports the framework, loads \<^verbatim>\<open>training_data.npz\<close>, builds a
  \<^verbatim>\<open>keras.Sequential\<close> of eight layers, compiles it, prints its summary, fits it,
  creates a directory and saves the model. The script has no function, branch or loop
  of its own, so the embedding is a chain of calls over an explicit world (the numpy
  namespace, the file system and the log of calls made), each call either returning a
  value or raising.

  Whether a call into numpy, the framework or the operating system raises is not decided
  by the script. It is read from an environment \<open>env\<close>, over which the theorems quantify.
\<close>

subsection \<open>Values\<close>

datatype activation = Relu | Softmax

datatype padding = Same | Valid

text \<open>The layer constructors the script calls, with the arguments it passes.\<close>

datatype layer =
    InputLayer "nat list"
  | Conv1D nat nat activation padding
  | BatchNormalization
  | Dropout real
  | GlobalAveragePooling1D
  | Dense nat activation

text \<open>An array as numpy holds it: a shape and the flat data.\<close>

datatype ndarray = NDArray "nat list" "real list"

text \<open>
  The values the script stores into the numpy namespace are the builtins \<^verbatim>\<open>object\<close> and
  \<^verbatim>\<open>bool\<close>; whatever numpy held under a name before is \<open>Numpy_attr\<close>.
\<close>

datatype pyobj = Builtin_object | Builtin_bool | Numpy_attr string

datatype exn =
    KeyError string
  | FileExistsError string
  | RuntimeError string
  | ValueError string
  | External string

record compile_cfg =
  optimizer :: string
  loss :: string
  metrics :: "string list"

text \<open>
  The model object. Python mutates it in place through the one name \<^verbatim>\<open>model\<close>; the
  embedding passes the updated record on.
\<close>

record keras_model =
  model_layers :: "layer list"
  compiled :: "compile_cfg option"
  epochs_done :: nat

datatype file_content = Keras_archive keras_model | Bytes "nat list"

text \<open>Every call the script makes, with its arguments, as it is logged.\<close>

datatype call =
    Import string
  | ImportFrom string string
  | SetAttr string string pyobj
  | NpLoad string
  | GetItem string
  | LayerCtor layer
  | Sequential "layer list"
  | Compile string string "string list"
  | Summary
  | Fit ndarray ndarray nat nat real nat
  | Makedirs string bool
  | Save string
  | Print string

record world =
  np_attrs :: "string \<rightharpoonup> pyobj"
  dirs :: "string set"
  files :: "string \<rightharpoonup> file_content"
  trace :: "call list"

text \<open>
  The environment: for each call whether the library raises there, what
  \<^verbatim>\<open>np.load\<close> returns (an archive whose members are decoded on access, so each
  member is an array or the exception its decoding raises), and for each training epoch
  whether it raises.
\<close>

record env =
  raises :: "call \<Rightarrow> exn option"
  npz_members :: "string \<Rightarrow> (string \<rightharpoonup> exn + ndarray)"
  epoch_raises :: "nat \<Rightarrow> exn option"

subsection \<open>Sequencing and exceptions\<close>

type_synonym 'a action = "world \<Rightarrow> (exn + 'a) \<times> world"

definition ret :: "'a \<Rightarrow> 'a action" where
  "ret a w = (Inr a, w)"

definition raise :: "exn \<Rightarrow> 'a action" where
  "raise e w = (Inl e, w)"

text \<open>
  One statement after another: an exception of the first ends the run, with the world as
  it was when the exception was raised.
\<close>

definition seq :: "'a action \<Rightarrow> ('a \<Rightarrow> 'b action) \<Rightarrow> 'b action" where
  "seq m f w = (case m w of (Inl e, w1) \<Rightarrow> (Inl e, w1) | (Inr a, w1) \<Rightarrow> f a w1)"

text \<open>A call into a library: it is logged, then it raises or returns.\<close>

definition ext_call :: "env \<Rightarrow> call \<Rightarrow> unit action" where
  "ext_call env c w =
     (let w1 = w\<lparr>trace := trace w @ [c]\<rparr>
      in case raises env c of Some e \<Rightarrow> (Inl e, w1) | None \<Rightarrow> (Inr (), w1))"

subsection \<open>The library operations the script uses\<close>

definition py_import :: "env \<Rightarrow> string \<Rightarrow> unit action" where
  "py_import env name = ext_call env (Import name)"

definition py_import_from :: "env \<Rightarrow> string \<Rightarrow> string \<Rightarrow> unit action" where
  "py_import_from env pkg name = ext_call env (ImportFrom pkg name)"

text \<open>\<^verbatim>\<open>np.<name> = v\<close>: an assignment to a module attribute, which does not raise.\<close>

definition np_setattr :: "string \<Rightarrow> pyobj \<Rightarrow> unit action" where
  "np_setattr name v w =
     (Inr (), w\<lparr>np_attrs := (np_attrs w)(name \<mapsto> v),
               trace := trace w @ [SetAttr ''numpy'' name v]\<rparr>)"

definition np_load :: "env \<Rightarrow> string \<Rightarrow> (string \<rightharpoonup> exn + ndarray) action" where
  "np_load env path = seq (ext_call env (NpLoad path)) (\<lambda>_. ret (npz_members env path))"

text \<open>\<^verbatim>\<open>data[key]\<close>: a missing member is a \<^verbatim>\<open>KeyError\<close>.\<close>

definition getitem :: "env \<Rightarrow> (string \<rightharpoonup> exn + ndarray) \<Rightarrow> string \<Rightarrow> ndarray action" where
  "getitem env data key =
     seq (ext_call env (GetItem key)) (\<lambda>_.
       case data key of
         None \<Rightarrow> raise (KeyError key)
       | Some (Inl e) \<Rightarrow> raise e
       | Some (Inr a) \<Rightarrow> ret a)"

text \<open>The elements of the list literal are evaluated left to right.\<close>

primrec construct_layers :: "env \<Rightarrow> layer list \<Rightarrow> (layer list) action" where
  "construct_layers env [] = ret []"
| "construct_layers env (l # ls) =
     seq (ext_call env (LayerCtor l)) (\<lambda>_.
     seq (construct_layers env ls) (\<lambda>built. ret (l # built)))"

text \<open>
  Shapes without the batch axis. A convolution along the time axis keeps the number of
  steps under \<^verbatim>\<open>padding='same'\<close> and loses \<open>kernel_size - 1\<close> of them under
  \<^verbatim>\<open>'valid'\<close>; global average pooling removes the time axis; a dense layer replaces the
  last axis by its units.
\<close>

fun layer_output_shape :: "layer \<Rightarrow> nat list \<Rightarrow> nat list option" where
  "layer_output_shape (InputLayer sh) s = (if s = sh then Some sh else None)"
| "layer_output_shape (Conv1D f k a Same) [t, c] = (if 0 < k then Some [t, f] else None)"
| "layer_output_shape (Conv1D f k a Valid) [t, c] =
     (if 0 < k \<and> k \<le> t then Some [t - k + 1, f] else None)"
| "layer_output_shape (Conv1D f k a p) s = None"
| "layer_output_shape BatchNormalization s = Some s"
| "layer_output_shape (Dropout r) s = Some s"
| "layer_output_shape GlobalAveragePooling1D [t, c] = Some [c]"
| "layer_output_shape GlobalAveragePooling1D s = None"
| "layer_output_shape (Dense u a) s = (if s = [] then None else Some (butlast s @ [u]))"

primrec propagate_shape :: "layer list \<Rightarrow> nat list \<Rightarrow> nat list option" where
  "propagate_shape [] s = Some s"
| "propagate_shape (l # ls) s =
     (case layer_output_shape l s of None \<Rightarrow> None | Some s' \<Rightarrow> propagate_shape ls s')"

text \<open>The input shape a layer list declares: that of a leading input layer.\<close>

definition declared_input :: "layer list \<Rightarrow> nat list option" where
  "declared_input ls = (case ls of InputLayer sh # _ \<Rightarrow> Some sh | _ \<Rightarrow> None)"

definition output_shape :: "layer list \<Rightarrow> nat list option" where
  "output_shape ls =
     (case declared_input ls of None \<Rightarrow> None | Some sh \<Rightarrow> propagate_shape ls sh)"

text \<open>
  \<^verbatim>\<open>keras.Sequential([...])\<close>: with a leading input layer the model is built at once, so
  layers whose shapes do not fit raise here.
\<close>

definition sequential :: "env \<Rightarrow> layer list \<Rightarrow> keras_model action" where
  "sequential env ls =
     seq (ext_call env (Sequential ls)) (\<lambda>_.
       if declared_input ls \<noteq> None \<and> output_shape ls = None
       then raise (ValueError ''incompatible layer shapes'')
       else ret \<lparr>model_layers = ls, compiled = None, epochs_done = 0\<rparr>)"

definition model_compile ::
  "env \<Rightarrow> keras_model \<Rightarrow> string \<Rightarrow> string \<Rightarrow> string list \<Rightarrow> keras_model action" where
  "model_compile env m opt ls ms =
     seq (ext_call env (Compile opt ls ms)) (\<lambda>_.
       ret (m\<lparr>compiled := Some \<lparr>optimizer = opt, loss = ls, metrics = ms\<rparr>\<rparr>))"

definition model_summary :: "env \<Rightarrow> keras_model \<Rightarrow> unit action" where
  "model_summary env m = ext_call env Summary"

text \<open>
  The epochs of one \<^verbatim>\<open>fit\<close>, numbered from 0 and run in order; an epoch that raises
  ends the loop.
\<close>

primrec run_epochs :: "env \<Rightarrow> nat \<Rightarrow> keras_model \<Rightarrow> keras_model action" where
  "run_epochs env 0 m = ret m"
| "run_epochs env (Suc n) m =
     seq (run_epochs env n m) (\<lambda>m'.
       case epoch_raises env n of
         Some e \<Rightarrow> raise e
       | None \<Rightarrow> ret (m'\<lparr>epochs_done := Suc (epochs_done m')\<rparr>))"

text \<open>
  The shape of an array. A batch of examples has the batch axis first, so the shape of
  one example of a batch is the shape without its first entry.
\<close>

primrec array_shape :: "ndarray \<Rightarrow> nat list" where
  "array_shape (NDArray sh d) = sh"

text \<open>
  The check of the framework on the array a model is called on: when the model declares
  an input shape, the array has a batch axis and each example has the declared shape.
\<close>

definition fits_input :: "layer list \<Rightarrow> ndarray \<Rightarrow> bool" where
  "fits_input ls X =
     (case declared_input ls of
        None \<Rightarrow> True
      | Some sh \<Rightarrow> array_shape X \<noteq> [] \<and> tl (array_shape X) = sh)"

text \<open>
  \<^verbatim>\<open>model.fit(X, y, epochs, batch_size, validation_split, verbose)\<close>; a model that was
  not compiled raises, and so does an \<open>X\<close> whose examples do not have the input shape
  the model declares (the framework's \<^verbatim>\<open>ValueError\<close>, "incompatible with the
  layer"), before any epoch runs. It returns the history (here the number of epochs run)
  and leaves the model trained.
\<close>

definition model_fit ::
  "env \<Rightarrow> keras_model \<Rightarrow> ndarray \<Rightarrow> ndarray \<Rightarrow> nat \<Rightarrow> nat \<Rightarrow> real \<Rightarrow> nat
     \<Rightarrow> (nat \<times> keras_model) action" where
  "model_fit env m X y epochs batch_size validation_split verbose =
     seq (ext_call env (Fit X y epochs batch_size validation_split verbose)) (\<lambda>_.
       if compiled m = None then raise (RuntimeError ''model is not compiled'')
       else if \<not> fits_input (model_layers m) X
       then raise (ValueError ''input incompatible with the layer'')
       else seq (run_epochs env epochs m) (\<lambda>m'. ret (epochs, m')))"

text \<open>The path itself and every prefix of it that ends before a separator.\<close>

fun dir_chain :: "string \<Rightarrow> string \<Rightarrow> string list" where
  "dir_chain pre [] = [pre]"
| "dir_chain pre (c # cs) =
     (if c = CHR ''/'' \<and> pre \<noteq> [] then pre # dir_chain (pre @ [c]) cs
      else dir_chain (pre @ [c]) cs)"

text \<open>
  \<^verbatim>\<open>os.makedirs(path, exist_ok)\<close>: a file at the path raises; a directory at the path
  raises unless \<open>exist_ok\<close>; otherwise the directory and its missing ancestors are
  created.
\<close>

definition os_makedirs :: "env \<Rightarrow> string \<Rightarrow> bool \<Rightarrow> unit action" where
  "os_makedirs env path exist_ok =
     seq (ext_call env (Makedirs path exist_ok)) (\<lambda>_ w.
       if path \<in> dom (files w) then (Inl (FileExistsError path), w)
       else if path \<in> dirs w then
         (if exist_ok then (Inr (), w) else (Inl (FileExistsError path), w))
       else (Inr (), w\<lparr>dirs := dirs w \<union> set (dir_chain [] path)\<rparr>))"

text \<open>
  \<^verbatim>\<open>model.save(path)\<close>: the framework writes its archive of the model at the path.
  What a save that raises leaves behind is the framework's business; no statement below
  depends on it.
\<close>

definition model_save :: "env \<Rightarrow> keras_model \<Rightarrow> string \<Rightarrow> unit action" where
  "model_save env m path =
     seq (ext_call env (Save path)) (\<lambda>_ w.
       (Inr (), w\<lparr>files := (files w)(path \<mapsto> Keras_archive m)\<rparr>))"

definition py_print :: "env \<Rightarrow> string \<Rightarrow> unit action" where
  "py_print env s = ext_call env (Print s)"

subsection \<open>The script\<close>

definition input_shape :: "nat list" where
  "input_shape = [6, 8]"

definition model_dir :: string where
  "model_dir = ''../public/models/trend-cnn''"

text \<open>The argument of \<^verbatim>\<open>keras.Sequential\<close>, in the order of the source.\<close>

definition trend_layers :: "layer list" where
  "trend_layers =
     [InputLayer input_shape,
      Conv1D 32 3 Relu Same,
      BatchNormalization,
      Dropout 0.2,
      Conv1D 16 3 Relu Same,
      GlobalAveragePooling1D,
      Dense 16 Relu,
      Dense 3 Softmax]"

text \<open>The three classes the comment on the last layer names, in its order.\<close>

datatype trend_class = Stable | Declining | Improving

definition trend_classes :: "trend_class list" where
  "trend_classes = [Stable, Declining, Improving]"

text \<open>The statements of the script, top to bottom.\<close>

definition run :: "env \<Rightarrow> unit action" where
  "run env =
     seq (py_import env ''numpy'') (\<lambda>_.
     seq (np_setattr ''object'' Builtin_object) (\<lambda>_.
     seq (np_setattr ''bool'' Builtin_bool) (\<lambda>_.
     seq (py_import env ''tensorflow'') (\<lambda>_.
     seq (py_import_from env ''tensorflow'' ''keras'') (\<lambda>_.
     seq (py_import_from env ''tensorflow.keras'' ''layers'') (\<lambda>_.
     seq (py_import env ''os'') (\<lambda>_.
     seq (np_load env ''training_data.npz'') (\<lambda>data.
     seq (getitem env data ''X'') (\<lambda>X.
     seq (getitem env data ''y'') (\<lambda>y.
     seq (construct_layers env trend_layers) (\<lambda>built.
     seq (sequential env built) (\<lambda>model.
     seq (model_compile env model ''adam'' ''sparse_categorical_crossentropy''
            [''accuracy'']) (\<lambda>model.
     seq (model_summary env model) (\<lambda>_.
     seq (model_fit env model X y 20 32 0.2 1) (\<lambda>(history, model).
     seq (os_makedirs env model_dir True) (\<lambda>_.
     seq (model_save env model ''trend_model.keras'') (\<lambda>_.
     py_print env ''Saved trend_model.keras'')))))))))))))))))"

subsection \<open>Reading the log of a run\<close>

text \<open>The calls a run added to the log.\<close>

definition new_calls :: "world \<Rightarrow> world \<Rightarrow> call list" where
  "new_calls w w' = drop (length (trace w)) (trace w')"

text \<open>The five steps the specification names, each marked by the call that performs it.\<close>

datatype step = Load_step | Construct_step | Compile_step | Fit_step | Save_step

fun step_of :: "call \<Rightarrow> step option" where
  "step_of (NpLoad p) = Some Load_step"
| "step_of (Sequential ls) = Some Construct_step"
| "step_of (Compile opt ls ms) = Some Compile_step"
| "step_of (Fit X y e b v vb) = Some Fit_step"
| "step_of (Save p) = Some Save_step"
| "step_of c = None"

definition main_steps :: "call list \<Rightarrow> step list" where
  "main_steps cs = List.map_filter step_of cs"

text \<open>The calls of a run in which nothing raises, for the arrays \<open>X\<close> and \<open>y\<close> loaded.\<close>

definition script_calls :: "ndarray \<Rightarrow> ndarray \<Rightarrow> call list" where
  "script_calls X y =
     [Import ''numpy'',
      SetAttr ''numpy'' ''object'' Builtin_object,
      SetAttr ''numpy'' ''bool'' Builtin_bool,
      Import ''tensorflow'',
      ImportFrom ''tensorflow'' ''keras'',
      ImportFrom ''tensorflow.keras'' ''layers'',
      Import ''os'',
      NpLoad ''training_data.npz'',
      GetItem ''X'',
      GetItem ''y'']
     @ map LayerCtor trend_layers @
     [Sequential trend_layers,
      Compile ''adam'' ''sparse_categorical_crossentropy'' [''accuracy''],
      Summary,
      Fit X y 20 32 0.2 1,
      Makedirs model_dir True,
      Save ''trend_model.keras'',
      Print ''Saved trend_model.keras'']"

fun compile_args :: "call \<Rightarrow> (string \<times> string \<times> string list) option" where
  "compile_args (Compile opt ls ms) = Some (opt, ls, ms)"
| "compile_args c = None"

fun fit_args :: "call \<Rightarrow> (nat \<times> nat \<times> real \<times> nat) option" where
  "fit_args (Fit X y epochs batch_size validation_split verbose) =
     Some (epochs, batch_size, validation_split, verbose)"
| "fit_args c = None"

text \<open>The model as the script leaves it after a fit that returned.\<close>

definition trained_model :: keras_model where
  "trained_model =
     \<lparr>model_layers = trend_layers,
      compiled = Some \<lparr>optimizer = ''adam'', loss = ''sparse_categorical_crossentropy'',
                       metrics = [''accuracy'']\<rparr>,
      epochs_done = 20\<rparr>"

text \<open>A path lies in a directory when it continues the directory's path by a separator.\<close>

definition is_under :: "string \<Rightarrow> string \<Rightarrow> bool" where
  "is_under d p = (take (Suc (length d)) p = d @ ''/'')"

subsection \<open>The exceptions of a run, in the order of the script\<close>

text \<open>The first epoch among the first \<open>n\<close> that raises, if one does.\<close>

primrec first_epoch_exn :: "env \<Rightarrow> nat \<Rightarrow> exn option" where
  "first_epoch_exn env 0 = None"
| "first_epoch_exn env (Suc n) =
     (case first_epoch_exn env n of Some e \<Rightarrow> Some e | None \<Rightarrow> epoch_raises env n)"

text \<open>
  What the libraries do at each statement that calls them, were it reached: \<open>None\<close> when
  the call returns, the exception when it raises. The entries follow the statements of the
  source from top to bottom; the fit is there only when both arrays were read, since it
  is called on them.
\<close>

definition getitem_outcome :: "env \<Rightarrow> (string \<rightharpoonup> exn + ndarray) \<Rightarrow> string \<Rightarrow> exn option" where
  "getitem_outcome env data key =
     (case raises env (GetItem key) of
        Some e \<Rightarrow> Some e
      | None \<Rightarrow>
          (case data key of
             None \<Rightarrow> Some (KeyError key)
           | Some (Inl e) \<Rightarrow> Some e
           | Some (Inr a) \<Rightarrow> None))"

definition fit_outcome :: "env \<Rightarrow> ndarray \<Rightarrow> ndarray \<Rightarrow> exn option" where
  "fit_outcome env X y =
     (case raises env (Fit X y 20 32 0.2 1) of
        Some e \<Rightarrow> Some e
      | None \<Rightarrow>
          if fits_input trend_layers X then first_epoch_exn env 20
          else Some (ValueError ''input incompatible with the layer''))"

definition makedirs_outcome :: "env \<Rightarrow> world \<Rightarrow> exn option" where
  "makedirs_outcome env w =
     (case raises env (Makedirs model_dir True) of
        Some e \<Rightarrow> Some e
      | None \<Rightarrow> if model_dir \<in> dom (files w) then Some (FileExistsError model_dir) else None)"

text \<open>The statements up to \<^verbatim>\<open>os.makedirs\<close>, the last one before the save.\<close>

definition outcomes_before_save :: "env \<Rightarrow> world \<Rightarrow> exn option list" where
  "outcomes_before_save env w =
     (let data = npz_members env ''training_data.npz'' in
      [raises env (Import ''numpy''),
       raises env (Import ''tensorflow''),
       raises env (ImportFrom ''tensorflow'' ''keras''),
       raises env (ImportFrom ''tensorflow.keras'' ''layers''),
       raises env (Import ''os''),
       raises env (NpLoad ''training_data.npz''),
       getitem_outcome env data ''X'',
       getitem_outcome env data ''y'']
      @ map (\<lambda>l. raises env (LayerCtor l)) trend_layers
      @ [raises env (Sequential trend_layers),
         raises env (Compile ''adam'' ''sparse_categorical_crossentropy'' [''accuracy'']),
         raises env Summary]
      @ (case (data ''X'', data ''y'') of
           (Some (Inr X), Some (Inr y)) \<Rightarrow> [fit_outcome env X y]
         | _ \<Rightarrow> [])
      @ [makedirs_outcome env w])"

text \<open>All statements: those before the save, the save and the final \<^verbatim>\<open>print\<close>.\<close>

definition step_outcomes :: "env \<Rightarrow> world \<Rightarrow> exn option list" where
  "step_outcomes env w =
     outcomes_before_save env w
     @ [raises env (Save ''trend_model.keras''),
        raises env (Print ''Saved trend_model.keras'')]"

primrec first_raised :: "exn option list \<Rightarrow> exn option" where
  "first_raised [] = None"
| "first_raised (x # xs) = (case x of Some e \<Rightarrow> Some e | None \<Rightarrow> first_raised xs)"

subsection \<open>Sample environments and worlds\<close>

definition sample_X :: ndarray where
  "sample_X = NDArray [2, 6, 8] (replicate 96 0)"

definition sample_y :: ndarray where
  "sample_y = NDArray [2] [0, 2]"

text \<open>Nothing raises, and the archive holds both arrays.\<close>

definition env_ok :: env where
  "env_ok =
     \<lparr>raises = (\<lambda>c. None),
      npz_members = (\<lambda>p. if p = ''training_data.npz''
                          then [''X'' \<mapsto> Inr sample_X, ''y'' \<mapsto> Inr sample_y]
                          else Map.empty),
      epoch_raises = (\<lambda>k. None)\<rparr>"

text \<open>The eighth epoch raises.\<close>

definition env_epoch_fails :: env where
  "env_epoch_fails =
     env_ok\<lparr>epoch_raises :=
              (\<lambda>k. if k = 7 then Some (External ''ResourceExhaustedError'') else None)\<rparr>"

text \<open>The framework cannot be imported.\<close>

definition env_no_tensorflow :: env where
  "env_no_tensorflow =
     env_ok\<lparr>raises :=
              (\<lambda>c. if c = Import ''tensorflow'' then Some (External ''ModuleNotFoundError'')
                   else None)\<rparr>"

definition world0 :: world where
  "world0 =
     \<lparr>np_attrs = [''bool'' \<mapsto> Numpy_attr ''numpy.bool_''],
      dirs = {''..''},
      files = [''training_data.npz'' \<mapsto> Bytes []],
      trace = []\<rparr>"

text \<open>The same world after an earlier run created the model directory.\<close>

definition world_with_dir :: world where
  "world_with_dir = world0\<lparr>dirs := dirs world0 \<union> set (dir_chain [] model_dir)\<rparr>"

text \<open>The archive holds an \<open>X\<close> of 7 numbers per example instead of windows of 6 by 8.\<close>

definition flat_X :: ndarray where
  "flat_X = NDArray [2, 7] (replicate 14 0)"

definition env_flat_X :: env where
  "env_flat_X =
     env_ok\<lparr>npz_members :=
              (\<lambda>p. if p = ''training_data.npz''
                   then [''X'' \<mapsto> Inr flat_X, ''y'' \<mapsto> Inr sample_y]
                   else Map.empty)\<rparr>"

section \<open>Properties\<close>

subsection \<open>The layers\<close>

text \<open>
  The last of the layers the script passes to \<^verbatim>\<open>keras.Sequential\<close> is a dense layer
  of 3 units with softmax activation, the shapes of the eight layers fit, and the output
  has one entry for each of the three classes the source names.
\<close>

lemma last_layer_three_unit_softmax:
  "last trend_layers = Dense 3 Softmax
   \<and> output_shape trend_layers = Some [length trend_classes]
   \<and> distinct trend_classes"
  by (simp add: trend_layers_def output_shape_def declared_input_def input_shape_def
      trend_classes_def)

subsection \<open>Stepping through a run\<close>

lemma seqE:
  assumes "seq m f w = (r, w')"
  obtains (raised) e where "m w = (Inl e, w')" "r = Inl e"
        | (returned) a w1 where "m w = (Inr a, w1)" "f a w1 = (r, w')"
  using assms by (auto simp: seq_def split: prod.splits sum.splits)

lemma seq_returned: "m w = (Inr a, w1) \<Longrightarrow> seq m f w = f a w1"
  by (simp add: seq_def)

lemma seq_raised: "m w = (Inl e, w1) \<Longrightarrow> seq m f w = (Inl e, w1)"
  by (simp add: seq_def)

lemma ret_eq [simp]: "ret a w = (r, w') \<longleftrightarrow> r = Inr a \<and> w' = w"
  by (auto simp: ret_def)

lemma raise_eq [simp]: "raise e w = (r, w') \<longleftrightarrow> r = Inl e \<and> w' = w"
  by (auto simp: raise_def)

lemma ext_call_eq:
  "ext_call env c w =
     (case raises env c of Some e \<Rightarrow> Inl e | None \<Rightarrow> Inr (), w\<lparr>trace := trace w @ [c]\<rparr>)"
  by (simp add: ext_call_def Let_def split: option.splits)

lemma ext_call_Inr [simp]:
  "ext_call env c w = (Inr u, w') \<longleftrightarrow>
     raises env c = None \<and> w' = w\<lparr>trace := trace w @ [c]\<rparr>"
  by (auto simp: ext_call_def Let_def split: option.splits)

lemma ext_call_Inl [simp]:
  "ext_call env c w = (Inl e, w') \<longleftrightarrow>
     raises env c = Some e \<and> w' = w\<lparr>trace := trace w @ [c]\<rparr>"
  by (auto simp: ext_call_def Let_def split: option.splits)

lemma np_setattr_eq [simp]:
  "np_setattr name v w = (r, w') \<longleftrightarrow>
     r = Inr () \<and> w' = w\<lparr>np_attrs := (np_attrs w)(name \<mapsto> v),
                           trace := trace w @ [SetAttr ''numpy'' name v]\<rparr>"
  by (auto simp: np_setattr_def)

lemma run_epochs_eq:
  "run_epochs env n m w =
     (case first_epoch_exn env n of Some e \<Rightarrow> Inl e
      | None \<Rightarrow> Inr (m\<lparr>epochs_done := epochs_done m + n\<rparr>), w)"
  by (induction n) (simp_all add: ret_def raise_def seq_def split: option.splits)

lemma run_epochs_Inr [simp]:
  "run_epochs env n m w = (Inr m', w') \<longleftrightarrow>
     first_epoch_exn env n = None \<and> m' = m\<lparr>epochs_done := epochs_done m + n\<rparr> \<and> w' = w"
  by (auto simp: run_epochs_eq split: option.splits)

lemma run_epochs_Inl [simp]:
  "run_epochs env n m w = (Inl e, w') \<longleftrightarrow> first_epoch_exn env n = Some e \<and> w' = w"
  by (auto simp: run_epochs_eq split: option.splits)

lemma first_epoch_exn_None:
  "first_epoch_exn env n = None \<longleftrightarrow> (\<forall>k<n. epoch_raises env k = None)"
  by (induction n) (auto simp: less_Suc_eq split: option.splits)

lemma trend_layers_fit [simp]: "output_shape trend_layers = Some [3]"
  by (simp add: output_shape_def declared_input_def trend_layers_def input_shape_def)

lemma declared_input_trend_layers: "declared_input trend_layers = Some [6, 8]"
  by (simp add: declared_input_def trend_layers_def input_shape_def)

lemma fits_input_trend_layers:
  "fits_input trend_layers X \<longleftrightarrow> (\<exists>n. array_shape X = [n, 6, 8])"
  by (cases "array_shape X") (auto simp: fits_input_def declared_input_trend_layers)

lemmas op_defs = run_def py_import_def py_import_from_def np_load_def getitem_def
  sequential_def model_compile_def model_summary_def model_fit_def os_makedirs_def
  model_save_def py_print_def


lemma py_import_Inr [simp]:
  "py_import env n w = (Inr u, w') \<longleftrightarrow>
     raises env (Import n) = None \<and> w' = w\<lparr>trace := trace w @ [Import n]\<rparr>"
  by (simp add: py_import_def)

lemma py_import_from_Inr [simp]:
  "py_import_from env p n w = (Inr u, w') \<longleftrightarrow>
     raises env (ImportFrom p n) = None \<and> w' = w\<lparr>trace := trace w @ [ImportFrom p n]\<rparr>"
  by (simp add: py_import_from_def)

lemma np_load_Inr [simp]:
  "np_load env p w = (Inr d, w') \<longleftrightarrow>
     raises env (NpLoad p) = None \<and> d = npz_members env p
       \<and> w' = w\<lparr>trace := trace w @ [NpLoad p]\<rparr>"
  unfolding np_load_def by (auto simp: seq_def ext_call_eq ret_def raise_def split: prod.splits option.splits sum.splits)

lemma getitem_Inr [simp]:
  "getitem env d k w = (Inr a, w') \<longleftrightarrow>
     raises env (GetItem k) = None \<and> d k = Some (Inr a)
       \<and> w' = w\<lparr>trace := trace w @ [GetItem k]\<rparr>"
  unfolding getitem_def
  by (auto simp: seq_def ext_call_eq ret_def raise_def split: prod.splits option.splits sum.splits)

lemma construct_layers_Inr [simp]:
  "construct_layers env ls w = (Inr built, w') \<longleftrightarrow>
     (\<forall>l\<in>set ls. raises env (LayerCtor l) = None) \<and> built = ls
       \<and> w' = w\<lparr>trace := trace w @ map LayerCtor ls\<rparr>"
proof (induction ls arbitrary: w built w')
  case Nil
  show ?case by (auto simp: ret_def)
next
  case (Cons l ls)
  show ?case
  proof (cases "raises env (LayerCtor l)")
    case (Some e)
    then show ?thesis
      by (auto simp: seq_def ext_call_eq)
  next
    case None
    show ?thesis
    proof (cases "construct_layers env ls (w\<lparr>trace := trace w @ [LayerCtor l]\<rparr>)")
      case (Pair r w1)
      show ?thesis
      proof (cases r)
        case (Inl e)
        with Pair have "\<not> (\<forall>l\<in>set ls. raises env (LayerCtor l) = None)"
          using Cons.IH [of "w\<lparr>trace := trace w @ [LayerCtor l]\<rparr>" ls
              "w\<lparr>trace := trace w @ [LayerCtor l] @ map LayerCtor ls\<rparr>"]
          by auto
        with None Pair Inl show ?thesis
          by (auto simp: seq_def ext_call_eq)
      next
        case (Inr b)
        with None Pair Cons.IH [of "w\<lparr>trace := trace w @ [LayerCtor l]\<rparr>" b w1]
        show ?thesis
          by (auto simp: seq_def ext_call_eq ret_def)
      qed
    qed
  qed
qed

lemma sequential_Inr [simp]:
  "sequential env ls w = (Inr m, w') \<longleftrightarrow>
     raises env (Sequential ls) = None
       \<and> \<not> (declared_input ls \<noteq> None \<and> output_shape ls = None)
       \<and> m = \<lparr>model_layers = ls, compiled = None, epochs_done = 0\<rparr>
       \<and> w' = w\<lparr>trace := trace w @ [Sequential ls]\<rparr>"
  unfolding sequential_def
  by (auto simp: seq_def ext_call_eq ret_def raise_def run_epochs_eq split: prod.splits option.splits sum.splits if_splits)

lemma model_compile_Inr [simp]:
  "model_compile env m opt ls ms w = (Inr m', w') \<longleftrightarrow>
     raises env (Compile opt ls ms) = None
       \<and> m' = m\<lparr>compiled := Some \<lparr>optimizer = opt, loss = ls, metrics = ms\<rparr>\<rparr>
       \<and> w' = w\<lparr>trace := trace w @ [Compile opt ls ms]\<rparr>"
  unfolding model_compile_def by (auto simp: seq_def ext_call_eq ret_def raise_def split: prod.splits option.splits sum.splits)

lemma model_summary_Inr [simp]:
  "model_summary env m w = (Inr u, w') \<longleftrightarrow>
     raises env Summary = None \<and> w' = w\<lparr>trace := trace w @ [Summary]\<rparr>"
  by (simp add: model_summary_def)

lemma model_fit_Inr [simp]:
  "model_fit env m X y ep bs vs vb w = (Inr res, w') \<longleftrightarrow>
     raises env (Fit X y ep bs vs vb) = None \<and> compiled m \<noteq> None
       \<and> fits_input (model_layers m) X
       \<and> first_epoch_exn env ep = None
       \<and> res = (ep, m\<lparr>epochs_done := epochs_done m + ep\<rparr>)
       \<and> w' = w\<lparr>trace := trace w @ [Fit X y ep bs vs vb]\<rparr>"
  unfolding model_fit_def
  by (auto simp: seq_def ext_call_eq ret_def raise_def run_epochs_eq split: prod.splits option.splits sum.splits if_splits)

lemma os_makedirs_Inr [simp]:
  "os_makedirs env p ok w = (Inr u, w') \<longleftrightarrow>
     raises env (Makedirs p ok) = None \<and> files w p = None \<and> (p \<in> dirs w \<longrightarrow> ok)
       \<and> w' = w\<lparr>dirs := (if p \<in> dirs w then dirs w
                               else dirs w \<union> set (dir_chain [] p)),
                      trace := trace w @ [Makedirs p ok]\<rparr>"
  unfolding os_makedirs_def
  by (auto simp: seq_def ext_call_eq ret_def raise_def run_epochs_eq split: prod.splits option.splits sum.splits if_splits)

lemma model_save_Inr [simp]:
  "model_save env m p w = (Inr u, w') \<longleftrightarrow>
     raises env (Save p) = None
       \<and> w' = w\<lparr>files := (files w)(p \<mapsto> Keras_archive m), trace := trace w @ [Save p]\<rparr>"
  unfolding model_save_def by (auto simp: seq_def ext_call_eq ret_def raise_def split: prod.splits option.splits sum.splits)

lemma py_print_Inr [simp]:
  "py_print env s w = (Inr u, w') \<longleftrightarrow>
     raises env (Print s) = None \<and> w' = w\<lparr>trace := trace w @ [Print s]\<rparr>"
  by (simp add: py_print_def)


lemma first_raised_append [simp]:
  "first_raised (xs @ ys) = (case first_raised xs of Some e \<Rightarrow> Some e | None \<Rightarrow> first_raised ys)"
  by (induction xs) (auto split: option.splits)

lemma first_raised_map_None:
  "first_raised (map f ls) = None \<longleftrightarrow> (\<forall>l\<in>set ls. f l = None)"
  by (induction ls) (auto split: option.splits)

lemma py_import_Inl [simp]:
  "py_import env n w = (Inl e, w') \<longleftrightarrow>
     raises env (Import n) = Some e \<and> w' = w\<lparr>trace := trace w @ [Import n]\<rparr>"
  by (simp add: py_import_def)

lemma py_import_from_Inl [simp]:
  "py_import_from env p n w = (Inl e, w') \<longleftrightarrow>
     raises env (ImportFrom p n) = Some e \<and> w' = w\<lparr>trace := trace w @ [ImportFrom p n]\<rparr>"
  by (simp add: py_import_from_def)

lemma np_load_Inl [simp]:
  "np_load env p w = (Inl e, w') \<longleftrightarrow>
     raises env (NpLoad p) = Some e \<and> w' = w\<lparr>trace := trace w @ [NpLoad p]\<rparr>"
  by (auto simp: np_load_def seq_def ext_call_eq ret_def split: option.splits)

lemma getitem_Inl [simp]:
  "getitem env d k w = (Inl e, w') \<longleftrightarrow>
     getitem_outcome env d k = Some e \<and> w' = w\<lparr>trace := trace w @ [GetItem k]\<rparr>"
  by (auto simp: getitem_def getitem_outcome_def seq_def ext_call_eq ret_def raise_def
      split: option.splits sum.splits)

lemma construct_layers_raised:
  "construct_layers env ls w = (Inl e, w') \<Longrightarrow>
     first_raised (map (\<lambda>l. raises env (LayerCtor l)) ls) = Some e
       \<and> (\<exists>xs. w' = w\<lparr>trace := trace w @ map LayerCtor xs\<rparr>)"
proof (induction ls arbitrary: w)
  case Nil
  then show ?case by (simp add: ret_def)
next
  case (Cons l ls)
  show ?case
  proof (cases "raises env (LayerCtor l)")
    case (Some e')
    with Cons.prems have "e' = e" "w' = w\<lparr>trace := trace w @ map LayerCtor [l]\<rparr>"
      by (auto simp: seq_def ext_call_eq)
    with Some show ?thesis by (auto intro: exI [of _ "[l]"])
  next
    case None
    with Cons.prems
    have "construct_layers env ls (w\<lparr>trace := trace w @ [LayerCtor l]\<rparr>) = (Inl e, w')"
      by (auto simp: seq_def ext_call_eq ret_def split: prod.splits sum.splits)
    from Cons.IH [OF this] obtain xs where
      "first_raised (map (\<lambda>l. raises env (LayerCtor l)) ls) = Some e"
      "w' = w\<lparr>trace := trace w @ map LayerCtor (l # xs)\<rparr>"
      by auto
    with None show ?thesis by (auto intro: exI [of _ "l # xs"])
  qed
qed

lemma sequential_Inl [simp]:
  "sequential env ls w = (Inl e, w') \<longleftrightarrow>
     (raises env (Sequential ls) = Some e
        \<or> raises env (Sequential ls) = None \<and> declared_input ls \<noteq> None
            \<and> output_shape ls = None \<and> e = ValueError ''incompatible layer shapes'')
       \<and> w' = w\<lparr>trace := trace w @ [Sequential ls]\<rparr>"
  by (auto simp: sequential_def seq_def ext_call_eq ret_def raise_def split: option.splits)

lemma model_compile_Inl [simp]:
  "model_compile env m opt ls ms w = (Inl e, w') \<longleftrightarrow>
     raises env (Compile opt ls ms) = Some e
       \<and> w' = w\<lparr>trace := trace w @ [Compile opt ls ms]\<rparr>"
  by (auto simp: model_compile_def seq_def ext_call_eq ret_def split: option.splits)

lemma model_summary_Inl [simp]:
  "model_summary env m w = (Inl e, w') \<longleftrightarrow>
     raises env Summary = Some e \<and> w' = w\<lparr>trace := trace w @ [Summary]\<rparr>"
  by (simp add: model_summary_def)

lemma model_fit_Inl [simp]:
  "model_fit env m X y ep bs vs vb w = (Inl e, w') \<longleftrightarrow>
     (raises env (Fit X y ep bs vs vb) = Some e
        \<or> raises env (Fit X y ep bs vs vb) = None \<and> compiled m = None
            \<and> e = RuntimeError ''model is not compiled''
        \<or> raises env (Fit X y ep bs vs vb) = None \<and> compiled m \<noteq> None
            \<and> \<not> fits_input (model_layers m) X
            \<and> e = ValueError ''input incompatible with the layer''
        \<or> raises env (Fit X y ep bs vs vb) = None \<and> compiled m \<noteq> None
            \<and> fits_input (model_layers m) X
            \<and> first_epoch_exn env ep = Some e)
       \<and> w' = w\<lparr>trace := trace w @ [Fit X y ep bs vs vb]\<rparr>"
  by (auto simp: model_fit_def seq_def ext_call_eq ret_def raise_def run_epochs_eq
      split: option.splits)

lemma os_makedirs_Inl [simp]:
  "os_makedirs env p ok w = (Inl e, w') \<longleftrightarrow>
     (raises env (Makedirs p ok) = Some e
        \<or> raises env (Makedirs p ok) = None \<and> e = FileExistsError p
            \<and> ((\<exists>c. files w p = Some c) \<or> p \<in> dirs w \<and> \<not> ok))
       \<and> w' = w\<lparr>trace := trace w @ [Makedirs p ok]\<rparr>"
  by (auto simp: os_makedirs_def seq_def ext_call_eq split: option.splits)

lemma model_save_Inl [simp]:
  "model_save env m p w = (Inl e, w') \<longleftrightarrow>
     raises env (Save p) = Some e \<and> w' = w\<lparr>trace := trace w @ [Save p]\<rparr>"
  by (auto simp: model_save_def seq_def ext_call_eq split: option.splits)

lemma py_print_Inl [simp]:
  "py_print env s w = (Inl e, w') \<longleftrightarrow>
     raises env (Print s) = Some e \<and> w' = w\<lparr>trace := trace w @ [Print s]\<rparr>"
  by (simp add: py_print_def)


subsection \<open>Runs that return and runs that raise\<close>

lemma dir_chain_nonempty: "dir_chain pre cs \<noteq> []"
  by (induction cs arbitrary: pre) auto

lemma dir_chain_last: "last (dir_chain pre cs) = pre @ cs"
  by (induction cs arbitrary: pre) (auto simp: dir_chain_nonempty)

lemma model_dir_in_chain: "model_dir \<in> set (dir_chain [] model_dir)"
  using last_in_set [OF dir_chain_nonempty, of "[]" model_dir] by (simp add: dir_chain_last)

lemma seq_InrE:
  assumes "seq m f w = (Inr b, w')"
  obtains a w1 where "m w = (Inr a, w1)" "f a w1 = (Inr b, w')"
  using assms by (auto simp: seq_def split: prod.splits sum.splits)

text \<open>What a run that returns has done, and that nothing raised on its way.\<close>

lemma run_returns:
  assumes "run env w = (Inr u, w')"
  shows "\<exists>X y. npz_members env ''training_data.npz'' ''X'' = Some (Inr X)
           \<and> npz_members env ''training_data.npz'' ''y'' = Some (Inr y)
           \<and> trace w' = trace w @ script_calls X y
           \<and> np_attrs w' = (np_attrs w)(''object'' \<mapsto> Builtin_object, ''bool'' \<mapsto> Builtin_bool)
           \<and> dirs w' = (if model_dir \<in> dirs w then dirs w
                         else dirs w \<union> set (dir_chain [] model_dir))
           \<and> files w' = (files w)(''trend_model.keras'' \<mapsto> Keras_archive trained_model)
           \<and> first_epoch_exn env 20 = None
           \<and> fits_input trend_layers X"
  using assms unfolding run_def
  apply -
  apply ((erule seq_InrE, clarsimp)+)
  apply (clarsimp simp: script_calls_def trained_model_def split: if_splits)
  done

lemma getitem_outcome_None [simp]:
  "raises env (GetItem k) = None \<Longrightarrow> d k = Some (Inr a) \<Longrightarrow> getitem_outcome env d k = None"
  by (simp add: getitem_outcome_def)

lemma first_raised_all_None [simp]:
  "\<forall>l\<in>set ls. f l = None \<Longrightarrow> first_raised (map f ls) = None"
  by (simp add: first_raised_map_None)

lemma makedirs_outcome_case:
  "makedirs_outcome env w =
     (case raises env (Makedirs model_dir True) of
        Some e \<Rightarrow> Some e
      | None \<Rightarrow>
          (case files w model_dir of
             Some c \<Rightarrow> Some (FileExistsError model_dir)
           | None \<Rightarrow> None))"
  by (auto simp: makedirs_outcome_def split: option.splits)

lemmas outcome_simps = step_outcomes_def outcomes_before_save_def Let_def fit_outcome_def
  makedirs_outcome_case

lemma run_returned_outcome:
  assumes "run env w = (Inr u, w')"
  shows "first_raised (step_outcomes env w) = None"
  using assms unfolding run_def
  apply -
  apply ((erule seq_InrE, clarsimp)+)
  apply (clarsimp simp: outcome_simps)
  done

text \<open>A run that raises: the exception is that of the first call that raises.\<close>

lemma run_raised_outcome:
  assumes "run env w = (Inl e, w')"
  shows "first_raised (step_outcomes env w) = Some e"
  using assms unfolding run_def
  apply -
  apply ((erule seqE; auto simp: outcome_simps dest!: construct_layers_raised)+)
  done

lemma main_steps_script_calls:
  "main_steps (script_calls X y) =
     [Load_step, Construct_step, Compile_step, Fit_step, Save_step]"
  by (simp add: main_steps_def script_calls_def trend_layers_def List.map_filter_simps)

lemma first_epoch_exn_Some:
  "k < n \<Longrightarrow> epoch_raises env k = Some e \<Longrightarrow> (\<forall>j<k. epoch_raises env j = None)
     \<Longrightarrow> first_epoch_exn env n = Some e"
proof (induction n)
  case 0
  then show ?case by simp
next
  case (Suc n)
  show ?case
  proof (cases "k = n")
    case True
    with Suc.prems have "first_epoch_exn env n = None"
      by (simp add: first_epoch_exn_None)
    with True Suc.prems show ?thesis by simp
  next
    case False
    with Suc.prems have "k < n" by simp
    with Suc show ?thesis by simp
  qed
qed

text \<open>The sample environment in which nothing raises gives a run that returns.\<close>

lemma env_ok_simps [simp]:
  "raises env_ok c = None"
  "epoch_raises env_ok k = None"
  "npz_members env_ok ''training_data.npz'' ''X'' = Some (Inr sample_X)"
  "npz_members env_ok ''training_data.npz'' ''y'' = Some (Inr sample_y)"
  "fits_input trend_layers sample_X"
  by (simp_all add: env_ok_def fits_input_trend_layers sample_X_def)

lemma first_epoch_exn_env_ok [simp]: "first_epoch_exn env_ok n = None"
  by (simp add: first_epoch_exn_None)

lemma run_env_ok:
  assumes "files w model_dir = None"
  shows "\<exists>w'. run env_ok w = (Inr (), w')"
proof (cases "run env_ok w")
  case (Pair r w')
  have none: "first_raised (step_outcomes env_ok w) = None"
    using assms by (auto simp: outcome_simps)
  show ?thesis
  proof (cases r)
    case (Inl e)
    with Pair run_raised_outcome [of env_ok w e w'] none show ?thesis by simp
  next
    case (Inr u)
    with Pair show ?thesis by simp
  qed
qed


subsection \<open>The input window\<close>



subsection \<open>The order of the steps\<close>

text \<open>
  C3. A run that returns has made exactly the calls of the script, each once and in the
  order of the source, on the arrays X and y read from \<^verbatim>\<open>training_data.npz\<close>; among
  them the five steps occur once each and in the order load, construct, compile, fit,
  save.
\<close>

theorem successful_run_steps_in_order:
  assumes "run env w = (Inr u, w')"
  shows "\<exists>X y. npz_members env ''training_data.npz'' ''X'' = Some (Inr X)
           \<and> npz_members env ''training_data.npz'' ''y'' = Some (Inr y)
           \<and> new_calls w w' = script_calls X y
           \<and> main_steps (new_calls w w') =
               [Load_step, Construct_step, Compile_step, Fit_step, Save_step]"
proof -
  from run_returns [OF assms] obtain X y where
    members: "npz_members env ''training_data.npz'' ''X'' = Some (Inr X)"
      "npz_members env ''training_data.npz'' ''y'' = Some (Inr y)"
    and log: "trace w' = trace w @ script_calls X y"
    by blast
  from log have "new_calls w w' = script_calls X y"
    by (simp add: new_calls_def)
  with members show ?thesis
    by (auto simp: main_steps_script_calls)
qed

theorem successful_run_steps_in_order_witness:
  "\<exists>w'. run env_ok world0 = (Inr (), w')
        \<and> new_calls world0 w' = script_calls sample_X sample_y
        \<and> main_steps (new_calls world0 w') =
            [Load_step, Construct_step, Compile_step, Fit_step, Save_step]"
proof -
  have "files world0 model_dir = None"
    by (simp add: world0_def model_dir_def)
  from run_env_ok [OF this] obtain w' where ok: "run env_ok world0 = (Inr (), w')" ..
  from successful_run_steps_in_order [OF ok] show ?thesis
    using ok by auto
qed


subsection \<open>The arguments of compile and fit\<close>

lemma map_filter_append [simp]:
  "List.map_filter f (xs @ ys) = List.map_filter f xs @ List.map_filter f ys"
  by (simp add: List.map_filter_def)

lemma compile_args_LayerCtor [simp]: "List.map_filter compile_args (map LayerCtor ls) = []"
  by (induction ls) (simp_all add: List.map_filter_simps)

lemma fit_args_LayerCtor [simp]: "List.map_filter fit_args (map LayerCtor ls) = []"
  by (induction ls) (simp_all add: List.map_filter_simps)

text \<open>
  C4. Whatever the environment and however the run ends, every call of
  \<^verbatim>\<open>model.compile\<close> the script makes has the optimizer 'adam', the loss
  'sparse_categorical_crossentropy' and the one metric 'accuracy'; a run that returns
  has made exactly one such call.
\<close>

theorem compile_arguments_fixed:
  assumes "run env w = (r, w')"
  shows "set (List.map_filter compile_args (new_calls w w'))
           \<subseteq> {(''adam'', ''sparse_categorical_crossentropy'', [''accuracy''])}
       \<and> (r = Inr () \<longrightarrow>
            List.map_filter compile_args (new_calls w w') =
              [(''adam'', ''sparse_categorical_crossentropy'', [''accuracy''])])"
  using assms unfolding run_def
  apply -
  apply ((erule seqE; clarsimp simp: new_calls_def List.map_filter_simps
      dest!: construct_layers_raised)+)
  apply (cases r; clarsimp simp: List.map_filter_simps)
  done

theorem compile_arguments_fixed_witness:
  "\<exists>w'. run env_ok world0 = (Inr (), w')
        \<and> List.map_filter compile_args (new_calls world0 w') =
            [(''adam'', ''sparse_categorical_crossentropy'', [''accuracy''])]"
proof -
  have "files world0 model_dir = None"
    by (simp add: world0_def model_dir_def)
  from run_env_ok [OF this] obtain w' where ok: "run env_ok world0 = (Inr (), w')" ..
  from compile_arguments_fixed [OF ok] show ?thesis
    using ok by simp
qed

text \<open>
  C5. Whatever the environment and however the run ends, every call of
  \<^verbatim>\<open>model.fit\<close> the script makes has epochs 20, batch size 32, validation split 0.2
  and verbose 1. A run that returns has made exactly one such call, none of its 20
  epochs has raised, and the model it saved has been trained for 20 epochs.
\<close>

theorem fit_arguments_fixed:
  assumes "run env w = (r, w')"
  shows "set (List.map_filter fit_args (new_calls w w')) \<subseteq> {(20, 32, 0.2, 1)}
       \<and> (r = Inr () \<longrightarrow>
            List.map_filter fit_args (new_calls w w') = [(20, 32, 0.2, 1)]
            \<and> first_epoch_exn env 20 = None
            \<and> (\<exists>m. files w' ''trend_model.keras'' = Some (Keras_archive m)
                   \<and> epochs_done m = 20))"
  using assms unfolding run_def
  apply -
  apply ((erule seqE; clarsimp simp: new_calls_def List.map_filter_simps
      dest!: construct_layers_raised)+)
  apply (cases r; clarsimp simp: List.map_filter_simps)
  done

theorem fit_arguments_fixed_witness:
  "\<exists>w'. run env_ok world0 = (Inr (), w')
        \<and> List.map_filter fit_args (new_calls world0 w') = [(20, 32, 0.2, 1)]
        \<and> (\<exists>m. files w' ''trend_model.keras'' = Some (Keras_archive m)
               \<and> epochs_done m = 20)"
proof -
  have "files world0 model_dir = None"
    by (simp add: world0_def model_dir_def)
  from run_env_ok [OF this] obtain w' where ok: "run env_ok world0 = (Inr (), w')" ..
  from fit_arguments_fixed [OF ok] show ?thesis
    using ok by simp
qed


subsection \<open>What is written to disk\<close>





subsection \<open>Exceptions\<close>

text \<open>
  C7. The script handles no exception: the run raises exactly when one of its calls into
  numpy, the framework or the operating system raises, taken in the order of the source,
  and the exception of the run is the one that call raised; the run returns exactly when
  none of them raises.
\<close>

theorem library_exceptions_propagate:
  "fst (run env w) =
     (case first_raised (step_outcomes env w) of None \<Rightarrow> Inr () | Some e \<Rightarrow> Inl e)"
proof (cases "run env w")
  case (Pair r w')
  show ?thesis
  proof (cases r)
    case (Inl e)
    with Pair have "first_raised (step_outcomes env w) = Some e"
      by (simp add: run_raised_outcome)
    with Pair Inl show ?thesis by simp
  next
    case (Inr u)
    with Pair have "first_raised (step_outcomes env w) = None"
      by (simp add: run_returned_outcome)
    with Pair Inr show ?thesis by simp
  qed
qed

theorem library_exceptions_propagate_witness:
  "fst (run env_epoch_fails world0) = Inl (External ''ResourceExhaustedError'')
   \<and> fst (run env_no_tensorflow world0) = Inl (External ''ModuleNotFoundError'')
   \<and> fst (run env_flat_X world0) = Inl (ValueError ''input incompatible with the layer'')
   \<and> fst (run env_ok world0) = Inr ()"
proof -
  have "epoch_raises env_epoch_fails 7 = Some (External ''ResourceExhaustedError'')"
    and "\<forall>j<7. epoch_raises env_epoch_fails j = None"
    by (simp_all add: env_epoch_fails_def env_ok_def)
  then have "first_epoch_exn env_epoch_fails 20 = Some (External ''ResourceExhaustedError'')"
    using first_epoch_exn_Some [of 7 20 env_epoch_fails] by simp
  then have "first_raised (step_outcomes env_epoch_fails world0) =
               Some (External ''ResourceExhaustedError'')"
    by (simp add: outcome_simps getitem_outcome_def env_epoch_fails_def env_ok_def
        fits_input_trend_layers sample_X_def world0_def model_dir_def)
  moreover have "first_raised (step_outcomes env_no_tensorflow world0) =
               Some (External ''ModuleNotFoundError'')"
    by (simp add: outcome_simps env_no_tensorflow_def env_ok_def)
  moreover have "first_raised (step_outcomes env_flat_X world0) =
               Some (ValueError ''input incompatible with the layer'')"
    by (simp add: outcome_simps getitem_outcome_def env_flat_X_def env_ok_def
        fits_input_trend_layers flat_X_def world0_def model_dir_def)
  moreover have "first_raised (step_outcomes env_ok world0) = None"
    by (simp add: outcome_simps getitem_outcome_def world0_def model_dir_def)
  ultimately show ?thesis
    using library_exceptions_propagate [of env_epoch_fails world0]
      library_exceptions_propagate [of env_no_tensorflow world0]
      library_exceptions_propagate [of env_flat_X world0]
      library_exceptions_propagate [of env_ok world0]
    by simp
qed


subsection \<open>No model file without training\<close>

lemma raised_run_reaches_save:
  assumes "run env w = (r, w')" and "r = Inl e"
  shows "(Save ''trend_model.keras'' \<notin> set (new_calls w w') \<longrightarrow>
            files w' = files w \<and> r \<noteq> Inr ())
       \<and> (Save ''trend_model.keras'' \<in> set (new_calls w w') \<longleftrightarrow>
            first_raised (outcomes_before_save env w) = None)
       \<and> (Save ''trend_model.keras'' \<in> set (new_calls w w') \<longrightarrow>
            raises env (NpLoad ''training_data.npz'') = None
            \<and> (\<forall>l\<in>set trend_layers. raises env (LayerCtor l) = None)
            \<and> raises env (Sequential trend_layers) = None
            \<and> raises env (Compile ''adam'' ''sparse_categorical_crossentropy''
                  [''accuracy'']) = None
            \<and> (\<exists>X y. Fit X y 20 32 0.2 1 \<in> set (new_calls w w')
                  \<and> raises env (Fit X y 20 32 0.2 1) = None
                  \<and> fits_input trend_layers X)
            \<and> first_epoch_exn env 20 = None)"
  using assms unfolding run_def
  apply -
  apply ((erule seqE; auto simp: new_calls_def outcome_simps dest!: construct_layers_raised)+)
  done

lemma returned_run_reaches_save:
  assumes "run env w = (r, w')" and "r = Inr u"
  shows "(Save ''trend_model.keras'' \<notin> set (new_calls w w') \<longrightarrow>
            files w' = files w \<and> r \<noteq> Inr ())
       \<and> (Save ''trend_model.keras'' \<in> set (new_calls w w') \<longleftrightarrow>
            first_raised (outcomes_before_save env w) = None)
       \<and> (Save ''trend_model.keras'' \<in> set (new_calls w w') \<longrightarrow>
            raises env (NpLoad ''training_data.npz'') = None
            \<and> (\<forall>l\<in>set trend_layers. raises env (LayerCtor l) = None)
            \<and> raises env (Sequential trend_layers) = None
            \<and> raises env (Compile ''adam'' ''sparse_categorical_crossentropy''
                  [''accuracy'']) = None
            \<and> (\<exists>X y. Fit X y 20 32 0.2 1 \<in> set (new_calls w w')
                  \<and> raises env (Fit X y 20 32 0.2 1) = None
                  \<and> fits_input trend_layers X)
            \<and> first_epoch_exn env 20 = None)"
  using assms unfolding run_def
  apply -
  apply hypsubst
  apply ((erule seq_InrE, clarsimp)+)
  apply (auto simp: new_calls_def outcome_simps)
  done

text \<open>
  C8. However a run ends: it reaches the call that saves exactly when no call before it
  in the source has raised. When it has not reached that call, it ends in an exception
  and the files are as they were before the run, so no model file has been written; and
  when it has reached it, the load, the construction of the layers and of the model, the
  compilation and the fit with all of its 20 epochs have returned before.
\<close>

theorem no_model_file_unless_trained:
  assumes "run env w = (r, w')"
  shows "(Save ''trend_model.keras'' \<notin> set (new_calls w w') \<longrightarrow>
            files w' = files w \<and> r \<noteq> Inr ())
       \<and> (Save ''trend_model.keras'' \<in> set (new_calls w w') \<longleftrightarrow>
            first_raised (outcomes_before_save env w) = None)
       \<and> (Save ''trend_model.keras'' \<in> set (new_calls w w') \<longrightarrow>
            raises env (NpLoad ''training_data.npz'') = None
            \<and> (\<forall>l\<in>set trend_layers. raises env (LayerCtor l) = None)
            \<and> raises env (Sequential trend_layers) = None
            \<and> raises env (Compile ''adam'' ''sparse_categorical_crossentropy''
                  [''accuracy'']) = None
            \<and> (\<exists>X y. Fit X y 20 32 0.2 1 \<in> set (new_calls w w')
                  \<and> raises env (Fit X y 20 32 0.2 1) = None
                  \<and> fits_input trend_layers X)
            \<and> first_epoch_exn env 20 = None)"
proof (cases r)
  case (Inl e)
  with assms show ?thesis
    by (rule raised_run_reaches_save)
next
  case (Inr u)
  with assms show ?thesis
    by (rule returned_run_reaches_save)
qed

theorem no_model_file_unless_trained_witness:
  "(\<exists>r w'. run env_epoch_fails world0 = (r, w')
       \<and> Save ''trend_model.keras'' \<notin> set (new_calls world0 w')
       \<and> files w' = files world0)
   \<and> (\<exists>w'. run env_ok world0 = (Inr (), w')
       \<and> Save ''trend_model.keras'' \<in> set (new_calls world0 w')
       \<and> first_epoch_exn env_ok 20 = None)"
proof
  obtain r w' where raised: "run env_epoch_fails world0 = (r, w')"
    by (cases "run env_epoch_fails world0")
  have "epoch_raises env_epoch_fails 7 = Some (External ''ResourceExhaustedError'')"
    and "\<forall>j<7. epoch_raises env_epoch_fails j = None"
    by (simp_all add: env_epoch_fails_def env_ok_def)
  then have "first_epoch_exn env_epoch_fails 20 \<noteq> None"
    using first_epoch_exn_Some [of 7 20 env_epoch_fails] by simp
  with no_model_file_unless_trained [OF raised]
  have "Save ''trend_model.keras'' \<notin> set (new_calls world0 w')" "files w' = files world0"
    by blast+
  with raised show "\<exists>r w'. run env_epoch_fails world0 = (r, w')
       \<and> Save ''trend_model.keras'' \<notin> set (new_calls world0 w')
       \<and> files w' = files world0"
    by blast
next
  have "files world0 model_dir = None"
    by (simp add: world0_def model_dir_def)
  from run_env_ok [OF this] obtain w' where ok: "run env_ok world0 = (Inr (), w')" ..
  from no_model_file_unless_trained [OF ok]
  have "Save ''trend_model.keras'' \<in> set (new_calls world0 w')" by blast
  with ok show "\<exists>w'. run env_ok world0 = (Inr (), w')
       \<and> Save ''trend_model.keras'' \<in> set (new_calls world0 w')
       \<and> first_epoch_exn env_ok 20 = None"
    by simp
qed


subsection \<open>The model directory\<close>

lemma not_under_model_dir: "\<not> is_under model_dir ''trend_model.keras''"
  by (simp add: is_under_def model_dir_def)

text \<open>
  C9. After a run that returns, the directory \<^verbatim>\<open>../public/models/trend-cnn\<close> exists, the
  call that makes it was \<^verbatim>\<open>os.makedirs(model_dir, exist_ok=True)\<close>, and a directory that
  was there before is tolerated: the directories are then as they were. The files are
  those from before the run with \<^verbatim>\<open>trend_model.keras\<close> added or replaced, a path that
  does not lie in the model directory, so every path in that directory holds what it held
  before the run.
\<close>

theorem model_dir_made_and_left_empty:
  assumes "run env w = (Inr u, w')"
  shows "model_dir \<in> dirs w'
       \<and> dirs w \<subseteq> dirs w'
       \<and> (model_dir \<in> dirs w \<longrightarrow> dirs w' = dirs w)
       \<and> Makedirs ''../public/models/trend-cnn'' True \<in> set (new_calls w w')
       \<and> files w' = (files w)(''trend_model.keras'' \<mapsto> Keras_archive trained_model)
       \<and> \<not> is_under model_dir ''trend_model.keras''
       \<and> (\<forall>p. is_under model_dir p \<longrightarrow> files w' p = files w p)"
proof -
  from run_returns [OF assms] obtain X y where
    tr: "trace w' = trace w @ script_calls X y"
    and ds: "dirs w' = (if model_dir \<in> dirs w then dirs w
                        else dirs w \<union> set (dir_chain [] model_dir))"
    and fs: "files w' = (files w)(''trend_model.keras'' \<mapsto> Keras_archive trained_model)"
    by blast
  from ds have "model_dir \<in> dirs w'"
    by (simp add: model_dir_in_chain)
  moreover from ds have "dirs w \<subseteq> dirs w'"
    by auto
  moreover from ds have "model_dir \<in> dirs w \<longrightarrow> dirs w' = dirs w"
    by simp
  moreover from tr have "Makedirs ''../public/models/trend-cnn'' True \<in> set (new_calls w w')"
    by (simp add: new_calls_def script_calls_def model_dir_def)
  moreover have "\<forall>p. is_under model_dir p \<longrightarrow> files w' p = files w p"
  proof (intro allI impI)
    fix p
    assume "is_under model_dir p"
    with not_under_model_dir have "p \<noteq> ''trend_model.keras''"
      by blast
    with fs show "files w' p = files w p"
      by simp
  qed
  ultimately show ?thesis
    using fs not_under_model_dir by blast
qed

theorem model_dir_made_and_left_empty_witness:
  "(\<exists>w'. run env_ok world_with_dir = (Inr (), w')
       \<and> model_dir \<in> dirs world_with_dir
       \<and> dirs w' = dirs world_with_dir
       \<and> files w' (model_dir @ ''/model.json'') = None
       \<and> files w' ''trend_model.keras'' = Some (Keras_archive trained_model))
   \<and> (\<exists>w'. run env_ok world0 = (Inr (), w')
       \<and> model_dir \<notin> dirs world0
       \<and> model_dir \<in> dirs w'
       \<and> files w' (model_dir @ ''/model.json'') = None)"
proof
  have "files world_with_dir model_dir = None"
    by (simp add: world_with_dir_def world0_def model_dir_def)
  from run_env_ok [OF this] obtain w' where
    ok: "run env_ok world_with_dir = (Inr (), w')" ..
  have there: "model_dir \<in> dirs world_with_dir"
    by (simp add: world_with_dir_def model_dir_in_chain)
  have under: "is_under model_dir (model_dir @ ''/model.json'')"
    by (simp add: is_under_def)
  have "files world_with_dir (model_dir @ ''/model.json'') = None"
    by (simp add: world_with_dir_def world0_def model_dir_def)
  with model_dir_made_and_left_empty [OF ok] there under
  have "dirs w' = dirs world_with_dir"
    and "files w' (model_dir @ ''/model.json'') = None"
    and "files w' ''trend_model.keras'' = Some (Keras_archive trained_model)"
    by simp_all
  with ok there show "\<exists>w'. run env_ok world_with_dir = (Inr (), w')
       \<and> model_dir \<in> dirs world_with_dir
       \<and> dirs w' = dirs world_with_dir
       \<and> files w' (model_dir @ ''/model.json'') = None
       \<and> files w' ''trend_model.keras'' = Some (Keras_archive trained_model)"
    by blast
next
  have "files world0 model_dir = None"
    by (simp add: world0_def model_dir_def)
  from run_env_ok [OF this] obtain w' where ok: "run env_ok world0 = (Inr (), w')" ..
  have absent: "model_dir \<notin> dirs world0"
    by (simp add: world0_def model_dir_def)
  have under: "is_under model_dir (model_dir @ ''/model.json'')"
    by (simp add: is_under_def)
  have "files world0 (model_dir @ ''/model.json'') = None"
    by (simp add: world0_def model_dir_def)
  with model_dir_made_and_left_empty [OF ok] under
  have "model_dir \<in> dirs w'" and "files w' (model_dir @ ''/model.json'') = None"
    by simp_all
  with ok absent show "\<exists>w'. run env_ok world0 = (Inr (), w')
       \<and> model_dir \<notin> dirs world0
       \<and> model_dir \<in> dirs w'
       \<and> files w' (model_dir @ ''/model.json'') = None"
    by blast
qed

subsection \<open>The numpy namespace\<close>

text \<open>
  C10. However a run ends, once \<^verbatim>\<open>import numpy\<close> has returned the next two things the
  script does are the assignments \<^verbatim>\<open>np.object = object\<close> and \<^verbatim>\<open>np.bool = bool\<close>, no
  test guards them, and nothing later undoes them: at the end of the run the numpy
  namespace is the one from before with these two names bound to the builtins, whatever
  they were bound to before. The namespace is the one of the world, shared by every
  module of the process. A run in which \<^verbatim>\<open>import numpy\<close> raises ends there and leaves
  the namespace as it was.
\<close>

theorem numpy_names_patched_first:
  assumes "run env w = (r, w')"
  shows "(raises env (Import ''numpy'') = None \<longrightarrow>
            np_attrs w' = (np_attrs w)(''object'' \<mapsto> Builtin_object, ''bool'' \<mapsto> Builtin_bool)
            \<and> take 3 (new_calls w w') =
                [Import ''numpy'',
                 SetAttr ''numpy'' ''object'' Builtin_object,
                 SetAttr ''numpy'' ''bool'' Builtin_bool])
       \<and> (raises env (Import ''numpy'') \<noteq> None \<longrightarrow>
            np_attrs w' = np_attrs w \<and> new_calls w w' = [Import ''numpy''] \<and> r \<noteq> Inr ())"
  using assms unfolding run_def
  apply -
  apply ((erule seqE; clarsimp simp: new_calls_def dest!: construct_layers_raised)+)
  apply (cases r; clarsimp)
  done

theorem numpy_names_patched_first_witness:
  "\<exists>r w'. run env_no_tensorflow world0 = (r, w')
       \<and> np_attrs world0 ''bool'' = Some (Numpy_attr ''numpy.bool_'')
       \<and> np_attrs world0 ''object'' = None
       \<and> np_attrs w' ''bool'' = Some Builtin_bool
       \<and> np_attrs w' ''object'' = Some Builtin_object
       \<and> take 3 (new_calls world0 w') =
           [Import ''numpy'',
            SetAttr ''numpy'' ''object'' Builtin_object,
            SetAttr ''numpy'' ''bool'' Builtin_bool]"
proof -
  obtain r w' where ran: "run env_no_tensorflow world0 = (r, w')"
    by (cases "run env_no_tensorflow world0")
  have "raises env_no_tensorflow (Import ''numpy'') = None"
    by (simp add: env_no_tensorflow_def env_ok_def)
  with numpy_names_patched_first [OF ran]
  have "np_attrs w' =
          (np_attrs world0)(''object'' \<mapsto> Builtin_object, ''bool'' \<mapsto> Builtin_bool)"
    and "take 3 (new_calls world0 w') =
           [Import ''numpy'',
            SetAttr ''numpy'' ''object'' Builtin_object,
            SetAttr ''numpy'' ''bool'' Builtin_bool]"
    by simp_all
  with ran show ?thesis
    by (simp add: world0_def)
qed

end
